theory Spec2Isabelle
  imports Complex_Main
begin

section \<open>Data model\<close>

text \<open>
  The notebook \<^verbatim>\<open>Inspecting_Satellite_Imagery.ipynb\<close> opens a raster dataset and reads its
  attributes \<^verbatim>\<open>bounds\<close>, \<^verbatim>\<open>width\<close>, \<^verbatim>\<open>height\<close> and \<^verbatim>\<open>transform\<close>. Python floats are
  modelled as reals (no rounding error, no overflow), Python integers as \<open>int\<close>. Every
  exception a cell can raise is a value of \<open>error\<close>.
\<close>

datatype error = SingularTransform | ZeroDivisionError | IndexError

text \<open>The six coefficients \<open>(a, b, c, d, e, f)\<close> of the affine georeferencing transform.\<close>

record affine =
  coef_a :: real
  coef_b :: real
  coef_c :: real
  coef_d :: real
  coef_e :: real
  coef_f :: real

text \<open>The attribute \<^verbatim>\<open>satdat.bounds\<close>; the field \<^verbatim>\<open>top\<close> is written \<open>top_edge\<close>.\<close>

record bounding_box =
  left :: real
  bottom :: real
  right :: real
  top_edge :: real

record dataset =
  bounds :: bounding_box
  width :: int
  height :: int
  transform :: affine

text \<open>
  A band as read by \<^verbatim>\<open>satdat.read()\<close>: a two-dimensional array with its shape
  (rows, columns) and its items by zero-based position.
\<close>

record 'a ndarray =
  nrows :: int
  ncols :: int
  item :: "nat \<Rightarrow> nat \<Rightarrow> 'a"

section \<open>The affine transform and its inverse\<close>

text \<open>
  Modelled from the spec: the application of a transform to a coordinate pair, the
  operator of \<^verbatim>\<open>satdat.transform * (vx, vy)\<close>, belongs to the external raster library and
  is not in the notebook. The spec gives the mapping
  \<^verbatim>\<open>x_world = a * col + b * row + c\<close>, \<^verbatim>\<open>y_world = d * col + e * row + f\<close>: the first
  component of the pair takes the place of \<open>col\<close>, the second of \<open>row\<close>.
\<close>

definition affine_mul :: "affine \<Rightarrow> real \<times> real \<Rightarrow> real \<times> real" where
  "affine_mul t p = (case p of (vx, vy) \<Rightarrow>
     (coef_a t * vx + coef_b t * vy + coef_c t,
      coef_d t * vx + coef_e t * vy + coef_f t))"

text \<open>Modelled from the spec: the operation \<^verbatim>\<open>pixel_to_world(row, col)\<close> of section 4.1.\<close>

definition pixel_to_world :: "affine \<Rightarrow> int \<Rightarrow> int \<Rightarrow> real \<times> real" where
  "pixel_to_world t row col = affine_mul t (of_int col, of_int row)"

text \<open>
  Modelled from the spec: the determinant of the linear part, the matrix with rows
  \<open>(a, b)\<close> and \<open>(d, e)\<close>, and the inversion of a transform, which fails with
  \<open>SingularTransform\<close> when that determinant is zero or numerically negligible. The spec
  gives no bound for "negligible", so the bound is the parameter \<open>tol\<close>: a determinant
  counts as negligible when its absolute value is at most \<open>tol\<close>. \<open>invert\<close> is the
  inversion at the bound 0, where no determinant but zero is negligible.
\<close>

definition determinant :: "affine \<Rightarrow> real" where
  "determinant t = coef_a t * coef_e t - coef_b t * coef_d t"

definition invert_within :: "real \<Rightarrow> affine \<Rightarrow> error + affine" where
  "invert_within tol t =
     (if determinant t = 0 \<or> \<bar>determinant t\<bar> \<le> tol then Inl SingularTransform
      else
        (let idet = 1 / determinant t;
             ra = coef_e t * idet;
             rb = - coef_b t * idet;
             rd = - coef_d t * idet;
             re = coef_a t * idet
         in Inr \<lparr>coef_a = ra, coef_b = rb, coef_c = - coef_c t * ra - coef_f t * rb,
                 coef_d = rd, coef_e = re, coef_f = - coef_c t * rd - coef_f t * re\<rparr>))"

definition invert :: "affine \<Rightarrow> error + affine" where
  "invert t = invert_within 0 t"

text \<open>
  Modelled from the spec: the rounding policy is one of \<open>floor\<close>, \<open>round\<close> and \<open>ceil\<close>.
  Each is read as the Python function of that name: the notebook passes
  \<^verbatim>\<open>op=math.floor\<close>; the built-in \<^verbatim>\<open>round\<close> of Python 3 resolves a tie to the even
  neighbour. An unrecognised policy is excluded by the type.
\<close>

datatype rounding_policy = Floor | Round | Ceil

definition py_round :: "real \<Rightarrow> int" where
  "py_round v =
     (let fl = \<lfloor>v\<rfloor>; frac = v - of_int fl
      in if frac < 1 / 2 then fl
         else if 1 / 2 < frac then fl + 1
         else if even fl then fl else fl + 1)"

fun apply_policy :: "rounding_policy \<Rightarrow> real \<Rightarrow> int" where
  "apply_policy Floor v = \<lfloor>v\<rfloor>"
| "apply_policy Round v = py_round v"
| "apply_policy Ceil v = \<lceil>v\<rceil>"

text \<open>
  Modelled from the spec: the operation \<^verbatim>\<open>world_to_pixel(x, y, rounding_policy)\<close> of
  section 4.1: invert the transform, apply the inverse to \<open>(x, y)\<close> to get the fractional
  \<open>(col_f, row_f)\<close>, round each with the policy, return \<open>(row, col)\<close>.
  \<open>world_to_pixel_within\<close> carries the bound for a negligible determinant;
  \<open>world_to_pixel\<close> is the operation at the bound 0.
\<close>

definition world_to_pixel_within ::
  "real \<Rightarrow> affine \<Rightarrow> real \<Rightarrow> real \<Rightarrow> rounding_policy \<Rightarrow> error + int \<times> int" where
  "world_to_pixel_within tol t x y policy =
     (case invert_within tol t of
        Inl err \<Rightarrow> Inl err
      | Inr inv_t \<Rightarrow>
          (case affine_mul inv_t (x, y) of
             (col_f, row_f) \<Rightarrow> Inr (apply_policy policy row_f, apply_policy policy col_f)))"

definition world_to_pixel ::
  "affine \<Rightarrow> real \<Rightarrow> real \<Rightarrow> rounding_policy \<Rightarrow> error + int \<times> int" where
  "world_to_pixel t x y policy = world_to_pixel_within 0 t x y policy"

section \<open>The cells of the notebook\<close>

text \<open>
  The attribute \<^verbatim>\<open>satdat.bounds\<close> is computed by the external raster library from the
  transform and the grid dimensions; the notebook only reads it and the spec gives no
  formula for it. The library's rule is taken as it stands: for an axis-aligned
  transform (b = d = 0) the bounds are \<open>(c, f + e * height, c + a * width, f)\<close>, with no
  ordering of the two ends; otherwise they are the smallest and largest coordinates of
  the images of the four grid corners. \<open>georeferenced\<close> says that a dataset's bounds are
  the ones this rule gives.
\<close>

definition extent :: "affine \<Rightarrow> int \<Rightarrow> int \<Rightarrow> bounding_box" where
  "extent t w h =
     (if coef_b t = 0 \<and> coef_d t = 0
      then \<lparr>left = coef_c t, bottom = coef_f t + coef_e t * of_int h,
             right = coef_c t + coef_a t * of_int w, top_edge = coef_f t\<rparr>
      else
        (let p0 = (coef_c t, coef_f t);
             p1 = affine_mul t (0, of_int h);
             p2 = affine_mul t (of_int w, of_int h);
             p3 = affine_mul t (of_int w, 0)
         in \<lparr>left = min (min (fst p0) (fst p1)) (min (fst p2) (fst p3)),
             bottom = min (min (snd p0) (snd p1)) (min (snd p2) (snd p3)),
             right = max (max (fst p0) (fst p1)) (max (fst p2) (fst p3)),
             top_edge = max (max (snd p0) (snd p1)) (max (snd p2) (snd p3))\<rparr>))"

definition georeferenced :: "dataset \<Rightarrow> bool" where
  "georeferenced ds = (bounds ds = extent (transform ds) (width ds) (height ds))"

text \<open>
  The dimensions cell:
  \<^verbatim>\<open>width_in_projected_units = satdat.bounds.right - satdat.bounds.left\<close>,
  \<^verbatim>\<open>height_in_projected_units = satdat.bounds.top - satdat.bounds.bottom\<close>.
\<close>

definition width_in_projected_units :: "dataset \<Rightarrow> real" where
  "width_in_projected_units ds = right (bounds ds) - left (bounds ds)"

definition height_in_projected_units :: "dataset \<Rightarrow> real" where
  "height_in_projected_units ds = top_edge (bounds ds) - bottom (bounds ds)"

text \<open>
  The resolution cell:
  \<^verbatim>\<open>xres = (satdat.bounds.right - satdat.bounds.left) / satdat.width\<close>,
  \<^verbatim>\<open>yres = (satdat.bounds.top - satdat.bounds.bottom) / satdat.height\<close>, then
  \<^verbatim>\<open>print("Are the pixels square: {}".format(xres == yres))\<close>.
  Dividing a float by the integer zero raises \<open>ZeroDivisionError\<close>; \<open>xres\<close> is computed
  before \<open>yres\<close>.
\<close>

definition xres :: "dataset \<Rightarrow> error + real" where
  "xres ds =
     (if width ds = 0 then Inl ZeroDivisionError
      else Inr ((right (bounds ds) - left (bounds ds)) / of_int (width ds)))"

definition yres :: "dataset \<Rightarrow> error + real" where
  "yres ds =
     (if height ds = 0 then Inl ZeroDivisionError
      else Inr ((top_edge (bounds ds) - bottom (bounds ds)) / of_int (height ds)))"

definition are_pixels_square :: "dataset \<Rightarrow> error + bool" where
  "are_pixels_square ds =
     (case xres ds of
        Inl err \<Rightarrow> Inl err
      | Inr xr \<Rightarrow> (case yres ds of Inl err \<Rightarrow> Inl err | Inr yr \<Rightarrow> Inr (xr = yr)))"

text \<open>
  The spec's words for the same two notions, to compare the cell with: the resolution
  from the coefficients, pixel width \<open>sqrt (a\<^sup>2 + d\<^sup>2)\<close> and pixel height
  \<open>sqrt (b\<^sup>2 + e\<^sup>2)\<close>, and the predicate \<^verbatim>\<open>is_square_pixel(tolerance)\<close>, true when
  \<open>\<bar>xres - yres\<bar> \<le> tolerance\<close>.
\<close>

definition resolution_spec :: "affine \<Rightarrow> real \<times> real" where
  "resolution_spec t =
     (sqrt ((coef_a t)\<^sup>2 + (coef_d t)\<^sup>2), sqrt ((coef_b t)\<^sup>2 + (coef_e t)\<^sup>2))"

definition is_square_pixel_spec :: "real \<Rightarrow> real \<Rightarrow> real \<Rightarrow> bool" where
  "is_square_pixel_spec tolerance xr yr = (\<bar>xr - yr\<bar> \<le> tolerance)"

text \<open>
  The corner cell:
  \<^verbatim>\<open>row_min = 0\<close>, \<^verbatim>\<open>col_min = 0\<close>, \<^verbatim>\<open>row_max = satdat.height - 1\<close>,
  \<^verbatim>\<open>col_max = satdat.width - 1\<close>,
  \<^verbatim>\<open>topleft = satdat.transform * (row_min, col_min)\<close>,
  \<^verbatim>\<open>botright = satdat.transform * (row_max, col_max)\<close>.
\<close>

definition row_min :: int where
  "row_min = 0"

definition col_min :: int where
  "col_min = 0"

definition row_max :: "dataset \<Rightarrow> int" where
  "row_max ds = height ds - 1"

definition col_max :: "dataset \<Rightarrow> int" where
  "col_max ds = width ds - 1"

definition topleft :: "dataset \<Rightarrow> real \<times> real" where
  "topleft ds = affine_mul (transform ds) (of_int row_min, of_int col_min)"

definition botright :: "dataset \<Rightarrow> real \<times> real" where
  "botright ds = affine_mul (transform ds) (of_int (row_max ds), of_int (col_max ds))"

text \<open>
  Indexing a two-dimensional array with a pair of integers, as \<^verbatim>\<open>red[row, col]\<close> does.
  The bands are arrays of the external array library, which is not in the notebook; its
  documented rule is taken as it stands: on an axis of size \<open>n\<close> an index \<open>i\<close> with
  \<open>-n \<le> i < n\<close> is accepted, a negative one is read as \<open>i + n\<close>, and any other raises
  \<open>IndexError\<close>. The first index runs over the rows, the second over the columns.
  \<open>position\<close> is the place (row, column) that a subscript reads, \<open>getitem\<close> the item
  read there.
\<close>

definition axis_index :: "int \<Rightarrow> int \<Rightarrow> error + nat" where
  "axis_index n i =
     (if i < - n \<or> n \<le> i then Inl IndexError
      else Inr (nat (if i < 0 then i + n else i)))"

definition position :: "'a ndarray \<Rightarrow> int \<times> int \<Rightarrow> error + nat \<times> nat" where
  "position arr ij =
     (case ij of (i, j) \<Rightarrow>
        (case axis_index (nrows arr) i of
           Inl err \<Rightarrow> Inl err
         | Inr r \<Rightarrow>
             (case axis_index (ncols arr) j of
                Inl err \<Rightarrow> Inl err
              | Inr c \<Rightarrow> Inr (r, c))))"

definition getitem :: "'a ndarray \<Rightarrow> int \<times> int \<Rightarrow> error + 'a" where
  "getitem arr ij =
     (case ij of (i, j) \<Rightarrow>
        (case axis_index (nrows arr) i of
           Inl err \<Rightarrow> Inl err
         | Inr r \<Rightarrow>
             (case axis_index (ncols arr) j of
                Inl err \<Rightarrow> Inl err
              | Inr c \<Rightarrow> Inr (item arr r c))))"

text \<open>
  The pixel cell:
  \<^verbatim>\<open>x_coord = satdat.bounds.left - 2000\<close>, \<^verbatim>\<open>y_coord = satdat.bounds.top + 2000\<close>,
  \<^verbatim>\<open>col, row = satdat.index(x_coord, y_coord, op=math.floor)\<close>, then
  \<^verbatim>\<open>red[row, col]\<close> (and the same subscript on the green, blue and NIR bands).
  \<^verbatim>\<open>satdat.index\<close> is the dataset's world-to-pixel conversion and returns (row, col);
  the cell binds \<open>col\<close> to the first component and \<open>row\<close> to the second.
  \<open>subscript\<close> is the pair the cell writes between the brackets.
\<close>

definition x_coord :: "dataset \<Rightarrow> real" where
  "x_coord ds = left (bounds ds) - 2000"

definition y_coord :: "dataset \<Rightarrow> real" where
  "y_coord ds = top_edge (bounds ds) + 2000"

definition index :: "dataset \<Rightarrow> real \<Rightarrow> real \<Rightarrow> rounding_policy \<Rightarrow> error + int \<times> int" where
  "index ds x y op = world_to_pixel (transform ds) x y op"

definition subscript :: "dataset \<Rightarrow> error + int \<times> int" where
  "subscript ds =
     (case index ds (x_coord ds) (y_coord ds) Floor of
        Inl err \<Rightarrow> Inl err
      | Inr (col, row) \<Rightarrow> Inr (row, col))"

definition pixel_value :: "dataset \<Rightarrow> 'a ndarray \<Rightarrow> error + 'a" where
  "pixel_value ds band =
     (case subscript ds of
        Inl err \<Rightarrow> Inl err
      | Inr rc \<Rightarrow> getitem band rc)"

section \<open>Example inputs\<close>

text \<open>The transform of the spec's concrete scenarios: axis-aligned pixels of 3 metres.\<close>

definition example_transform :: affine where
  "example_transform =
     \<lparr>coef_a = 3, coef_b = 0, coef_c = 500000, coef_d = 0, coef_e = - 3, coef_f = 4000000\<rparr>"

text \<open>
  An invertible transform with shear (determinant -7), a singular one, and one whose
  determinant is -1e-20: not zero, but within a bound of 1e-12.
\<close>

definition sheared_transform :: affine where
  "sheared_transform =
     \<lparr>coef_a = 2, coef_b = 1, coef_c = 10, coef_d = 1, coef_e = - 3, coef_f = 20\<rparr>"



text \<open>
  Datasets for the resolution cell. In \<open>tolerance_dataset\<close> the two resolutions differ
  by one part in \<open>10\<^sup>9\<close>; \<open>flipped_dataset\<close> has a negative \<open>a\<close> and a positive \<open>e\<close>,
  so the library's rule gives it a left bound east of the right one and a top below the bottom;
  \<open>example_dataset\<close> is a raster of 1000 by 1000 pixels under the example transform.
\<close>

definition tolerance_dataset :: dataset where
  "tolerance_dataset =
     \<lparr>bounds = \<lparr>left = 0, bottom = 0, right = 3, top_edge = 3 + 1 / 10 ^ 9\<rparr>,
      width = 1, height = 1,
      transform = \<lparr>coef_a = 3, coef_b = 0, coef_c = 0, coef_d = 0,
                   coef_e = - (3 + 1 / 10 ^ 9), coef_f = 3 + 1 / 10 ^ 9\<rparr>\<rparr>"

definition flipped_dataset :: dataset where
  "flipped_dataset =
     \<lparr>bounds = \<lparr>left = 100, bottom = 60, right = 70, top_edge = 20\<rparr>,
      width = 10, height = 8,
      transform = \<lparr>coef_a = - 3, coef_b = 0, coef_c = 100, coef_d = 0,
                   coef_e = 5, coef_f = 20\<rparr>\<rparr>"

definition example_dataset :: dataset where
  "example_dataset =
     \<lparr>bounds = extent example_transform 1000 1000, width = 1000, height = 1000,
      transform = example_transform\<rparr>"

text \<open>
  Datasets for the corner cell: one whose linear part is zero, one wider than high.
\<close>

definition degenerate_dataset :: dataset where
  "degenerate_dataset =
     \<lparr>bounds = \<lparr>left = 500000, bottom = 4000000, right = 500000, top_edge = 4000000\<rparr>,
      width = 3, height = 2,
      transform = \<lparr>coef_a = 0, coef_b = 0, coef_c = 500000, coef_d = 0,
                   coef_e = 0, coef_f = 4000000\<rparr>\<rparr>"

definition wide_dataset :: dataset where
  "wide_dataset =
     \<lparr>bounds = extent example_transform 1500 1000, width = 1500, height = 1000,
      transform = example_transform\<rparr>"

text \<open>
  Datasets and bands for the pixel cell: a raster with pixels of 3 by 2 metres, a raster
  of 100 by 100 pixels (300 metres a side), a raster of 4 by 4 pixels of 1000 metres with
  a and e both negative, and bands whose items encode their position.
\<close>

definition oblong_dataset :: dataset where
  "oblong_dataset =
     \<lparr>bounds = \<lparr>left = 500000, bottom = 3998000, right = 503000, top_edge = 4000000\<rparr>,
      width = 1000, height = 1000,
      transform = \<lparr>coef_a = 3, coef_b = 0, coef_c = 500000, coef_d = 0,
                   coef_e = - 2, coef_f = 4000000\<rparr>\<rparr>"

definition small_dataset :: dataset where
  "small_dataset =
     \<lparr>bounds = extent example_transform 100 100, width = 100, height = 100,
      transform = example_transform\<rparr>"

definition square_dataset :: dataset where
  "square_dataset =
     \<lparr>bounds = \<lparr>left = 500000, bottom = 3996000, right = 496000, top_edge = 4000000\<rparr>,
      width = 4, height = 4,
      transform = \<lparr>coef_a = - 1000, coef_b = 0, coef_c = 500000, coef_d = 0,
                   coef_e = - 1000, coef_f = 4000000\<rparr>\<rparr>"

definition square_band :: "int ndarray" where
  "square_band = \<lparr>nrows = 4, ncols = 4, item = (\<lambda>r c. int r * 4 + int c)\<rparr>"

definition example_band :: "int ndarray" where
  "example_band = \<lparr>nrows = 1000, ncols = 1000, item = (\<lambda>r c. int r * 1000 + int c)\<rparr>"

definition small_band :: "int ndarray" where
  "small_band = \<lparr>nrows = 100, ncols = 100, item = (\<lambda>r c. int r * 100 + int c)\<rparr>"

section \<open>Concrete scenarios\<close>

text \<open>
  C1: for the transform a=3, b=0, c=500000, d=0, e=-3, f=4000000 the forward mapping
  sends pixel (row 0, col 0) to exactly (500000, 4000000) and pixel (row 1, col 1) to
  exactly (500003, 3999997).
\<close>

theorem pixel_to_world_example:
  "pixel_to_world example_transform 0 0 = (500000, 4000000) \<and>
   pixel_to_world example_transform 1 1 = (500003, 3999997)"
  by (simp add: pixel_to_world_def affine_mul_def example_transform_def)

text \<open>
  C2: for the same transform the inverse mapping sends the world point
  (500001.5, 3999998.5) to (row 0, col 0) under the floor policy and to (row 1, col 1)
  under the ceil policy.
\<close>

theorem world_to_pixel_example:
  "world_to_pixel example_transform (500001 + 1 / 2) (3999998 + 1 / 2) Floor = Inr (0, 0) \<and>
   world_to_pixel example_transform (500001 + 1 / 2) (3999998 + 1 / 2) Ceil = Inr (1, 1)"
  by (simp add: world_to_pixel_def world_to_pixel_within_def invert_within_def
      determinant_def affine_mul_def example_transform_def Let_def ceiling_def)

section \<open>Inversion\<close>

text \<open>At the bound 0 a transform is singular exactly when its determinant is zero.\<close>

lemma invert_eq:
  "invert t =
     (if determinant t = 0 then Inl SingularTransform
      else Inr \<lparr>coef_a = coef_e t / determinant t, coef_b = - coef_b t / determinant t,
        coef_c = - coef_c t * (coef_e t / determinant t)
                 - coef_f t * (- coef_b t / determinant t),
        coef_d = - coef_d t / determinant t, coef_e = coef_a t / determinant t,
        coef_f = - coef_c t * (- coef_d t / determinant t)
                 - coef_f t * (coef_a t / determinant t)\<rparr>)"
  by (simp add: invert_def invert_within_def Let_def)

lemma world_to_pixel_eq:
  "world_to_pixel t x y policy =
     (case invert t of
        Inl err \<Rightarrow> Inl err
      | Inr inv_t \<Rightarrow>
          (case affine_mul inv_t (x, y) of
             (col_f, row_f) \<Rightarrow> Inr (apply_policy policy row_f, apply_policy policy col_f)))"
  by (simp add: world_to_pixel_def world_to_pixel_within_def invert_def)

text \<open>Above the bound the operation is the one at the bound 0.\<close>

lemma world_to_pixel_within_above:
  "tol < \<bar>determinant t\<bar> \<Longrightarrow>
   world_to_pixel_within tol t x y policy = world_to_pixel t x y policy"
  by (auto simp add: world_to_pixel_def world_to_pixel_within_def invert_within_def)

lemma apply_policy_of_int: "apply_policy p (of_int n) = n"
  by (cases p) (simp_all add: py_round_def)

lemma inverse_algebra:
  fixes a b c d e f D vx vy :: real
  assumes D: "D \<noteq> 0" and Dd: "a * e - b * d = D"
  shows "e / D * (a * vx + b * vy + c) + - b / D * (d * vx + e * vy + f)
           + (- c * (e / D) - f * (- b / D)) = vx"
    and "- d / D * (a * vx + b * vy + c) + a / D * (d * vx + e * vy + f)
           + (- c * (- d / D) - f * (a / D)) = vy"
proof -
  have "e / D * (a * vx + b * vy + c) + - b / D * (d * vx + e * vy + f)
           + (- c * (e / D) - f * (- b / D)) = (vx * (a * e - b * d)) / D"
    using D by (simp add: field_simps)
  then show "e / D * (a * vx + b * vy + c) + - b / D * (d * vx + e * vy + f)
           + (- c * (e / D) - f * (- b / D)) = vx"
    using D Dd by simp
  have "- d / D * (a * vx + b * vy + c) + a / D * (d * vx + e * vy + f)
           + (- c * (- d / D) - f * (a / D)) = (vy * (a * e - b * d)) / D"
    using D by (simp add: field_simps)
  then show "- d / D * (a * vx + b * vy + c) + a / D * (d * vx + e * vy + f)
           + (- c * (- d / D) - f * (a / D)) = vy"
    using D Dd by simp
qed

lemma invert_affine_mul:
  assumes "determinant t \<noteq> 0" and "invert t = Inr inv_t"
  shows "affine_mul inv_t (affine_mul t p) = p"
proof -
  obtain vx vy where p: "p = (vx, vy)" by (cases p)
  have Dd: "coef_a t * coef_e t - coef_b t * coef_d t = determinant t"
    by (simp add: determinant_def)
  from assms have it: "inv_t = \<lparr>coef_a = coef_e t / determinant t, coef_b = - coef_b t / determinant t,
      coef_c = - coef_c t * (coef_e t / determinant t) - coef_f t * (- coef_b t / determinant t),
      coef_d = - coef_d t / determinant t, coef_e = coef_a t / determinant t,
      coef_f = - coef_c t * (- coef_d t / determinant t) - coef_f t * (coef_a t / determinant t)\<rparr>"
    by (simp add: invert_eq)
  show ?thesis
    unfolding p it affine_mul_def
    using inverse_algebra [OF assms(1) Dd, of vx vy "coef_c t" "coef_f t"]
    by simp
qed

lemma invert_ok: "determinant t \<noteq> 0 \<Longrightarrow> \<exists>inv_t. invert t = Inr inv_t"
  by (simp add: invert_eq)

lemma world_to_pixel_of_pixel:
  assumes "determinant t \<noteq> 0"
  shows "world_to_pixel t (fst (pixel_to_world t r c)) (snd (pixel_to_world t r c)) p = Inr (r, c)"
proof -
  from assms obtain inv_t where i: "invert t = Inr inv_t"
    using invert_ok by blast
  have "affine_mul inv_t (pixel_to_world t r c) = (of_int c, of_int r)"
    unfolding pixel_to_world_def by (rule invert_affine_mul [OF assms i])
  then show ?thesis
    by (simp add: world_to_pixel_eq i apply_policy_of_int)
qed

text \<open>
  The round policy absorbs an error below half a pixel: a fractional coordinate within
  1/2 of an integer rounds to that integer. Floor and ceil do not.
\<close>

lemma py_round_near:
  assumes "\<bar>d\<bar> < 1 / 2"
  shows "py_round (of_int n + d) = n"
proof (cases "0 \<le> d")
  case True
  with assms have "\<lfloor>of_int n + d\<rfloor> = n"
    by (simp add: floor_unique)
  with True assms show ?thesis
    by (simp add: py_round_def)
next
  case False
  with assms have "\<lfloor>of_int n + d\<rfloor> = n - 1"
    by (simp add: floor_unique)
  with False assms show ?thesis
    by (simp add: py_round_def)
qed

text \<open>
  C4: for every invertible transform and every integer pixel (row, col), mapping the pixel
  to world coordinates and back under the round policy returns (row, col), and it still
  does when the fractional pixel coordinates are off by less than half a pixel before
  rounding: the world point of \<open>(col + dc, row + dr)\<close> with \<open>\<bar>dc\<bar>, \<bar>dr\<bar> < 1/2\<close> maps back
  to (row, col).
\<close>

theorem round_trip:
  assumes "determinant t \<noteq> 0" and "\<bar>dc\<bar> < 1 / 2" and "\<bar>dr\<bar> < 1 / 2"
  shows "world_to_pixel t (fst (pixel_to_world t row col)) (snd (pixel_to_world t row col))
           Round = Inr (row, col) \<and>
         world_to_pixel t (fst (affine_mul t (of_int col + dc, of_int row + dr)))
           (snd (affine_mul t (of_int col + dc, of_int row + dr))) Round = Inr (row, col) \<and>
         apply_policy Round (of_int row + dr) = row \<and>
         apply_policy Round (of_int col + dc) = col"
proof -
  from assms(1) obtain inv_t where i: "invert t = Inr inv_t"
    using invert_ok by blast
  have "affine_mul inv_t (affine_mul t (of_int col + dc, of_int row + dr))
          = (of_int col + dc, of_int row + dr)"
    by (rule invert_affine_mul [OF assms(1) i])
  then have "world_to_pixel t (fst (affine_mul t (of_int col + dc, of_int row + dr)))
      (snd (affine_mul t (of_int col + dc, of_int row + dr))) Round = Inr (row, col)"
    by (simp add: world_to_pixel_eq i py_round_near [OF assms(2)] py_round_near [OF assms(3)])
  then show ?thesis
    by (simp add: world_to_pixel_of_pixel [OF assms(1)] py_round_near [OF assms(2)]
        py_round_near [OF assms(3)])
qed

lemma sheared_inverse:
  "invert sheared_transform =
     Inr \<lparr>coef_a = 3 / 7, coef_b = 1 / 7, coef_c = - 50 / 7,
          coef_d = 1 / 7, coef_e = - 2 / 7, coef_f = 30 / 7\<rparr>"
  by (simp add: invert_eq determinant_def sheared_transform_def)

theorem round_trip_witness:
  "determinant sheared_transform \<noteq> 0 \<and>
   pixel_to_world sheared_transform 7 (- 2) = (13, - 3) \<and>
   world_to_pixel sheared_transform 13 (- 3) Round = Inr (7, - 2) \<and>
   affine_mul sheared_transform (- 2 + 2 / 5, 7 - 2 / 5) = (67 / 5, - 7 / 5) \<and>
   world_to_pixel sheared_transform (67 / 5) (- 7 / 5) Round = Inr (7, - 2) \<and>
   world_to_pixel sheared_transform (67 / 5) (- 7 / 5) Floor = Inr (6, - 2)"
proof -
  have d: "determinant sheared_transform \<noteq> 0"
    by (simp add: determinant_def sheared_transform_def)
  have p: "pixel_to_world sheared_transform 7 (- 2) = (13, - 3)"
    by (simp add: pixel_to_world_def affine_mul_def sheared_transform_def)
  have q: "affine_mul sheared_transform (of_int (- 2) + 2 / 5, of_int 7 + - (2 / 5))
      = (67 / 5, - 7 / 5)"
    by (simp add: affine_mul_def sheared_transform_def)
  have dc: "\<bar>2 / 5 :: real\<bar> < 1 / 2" and dr: "\<bar>- (2 / 5) :: real\<bar> < 1 / 2"
    by simp_all
  have f: "world_to_pixel sheared_transform (67 / 5) (- 7 / 5) Floor = Inr (6, - 2)"
    by (simp add: world_to_pixel_eq sheared_inverse affine_mul_def)
  from round_trip [OF d dc dr, of 7 "- 2"] d p q f show ?thesis
    by simp
qed



text \<open>
  C8: for every invertible transform and all real world coordinates, \<open>world_to_pixel\<close>
  succeeds with an integer (row, col). It takes no height or width and checks no range:
  every integer pair (r, c), negative or beyond any raster, is the ordinary result for
  the world coordinates of that pixel.
\<close>

theorem world_to_pixel_unchecked:
  assumes "determinant t \<noteq> 0"
  shows "(\<exists>row col. world_to_pixel t x y policy = Inr (row, col)) \<and>
         world_to_pixel t (fst (pixel_to_world t r c)) (snd (pixel_to_world t r c)) policy
           = Inr (r, c)"
proof
  from assms obtain inv_t where i: "invert t = Inr inv_t"
    using invert_ok by blast
  show "\<exists>row col. world_to_pixel t x y policy = Inr (row, col)"
    by (simp add: world_to_pixel_eq i split: prod.split)
  show "world_to_pixel t (fst (pixel_to_world t r c)) (snd (pixel_to_world t r c)) policy
           = Inr (r, c)"
    by (rule world_to_pixel_of_pixel [OF assms])
qed

theorem world_to_pixel_unchecked_witness:
  "determinant example_transform \<noteq> 0 \<and>
   (\<exists>row col. world_to_pixel example_transform 0 0 Ceil = Inr (row, col)) \<and>
   pixel_to_world example_transform (- 5) 100000 = (800000, 4000015) \<and>
   world_to_pixel example_transform 800000 4000015 Ceil = Inr (- 5, 100000)"
proof -
  have d: "determinant example_transform \<noteq> 0"
    by (simp add: determinant_def example_transform_def)
  have p: "pixel_to_world example_transform (- 5) 100000 = (800000, 4000015)"
    by (simp add: pixel_to_world_def affine_mul_def example_transform_def)
  from world_to_pixel_unchecked [OF d, of 0 0 Ceil "- 5" 100000] d p show ?thesis by simp
qed


section \<open>The resolution cell\<close>

text \<open>
  C3, as the claim states it, fails: the cell compares with \<open>==\<close> and has no
  tolerance. With resolutions 3 and 3 + 1e-9 the difference is non-zero and within the
  tolerance 1e-9, the spec's predicate is true, and the cell prints false.
\<close>

theorem square_check_counterexample:
  "xres tolerance_dataset = Inr 3 \<and>
   yres tolerance_dataset = Inr (3 + 1 / 10 ^ 9) \<and>
   (3::real) - (3 + 1 / 10 ^ 9) \<noteq> 0 \<and>
   is_square_pixel_spec (1 / 10 ^ 9) 3 (3 + 1 / 10 ^ 9) \<and>
   are_pixels_square tolerance_dataset = Inr False"
  by (simp add: are_pixels_square_def xres_def yres_def tolerance_dataset_def
      is_square_pixel_spec_def)

text \<open>
  C3, amended: the square-pixel check of the notebook takes no tolerance. When both
  resolutions are defined it is true exactly when \<open>xres = yres\<close>, which is the spec's
  predicate at tolerance 0; a true answer implies the spec's predicate at every
  tolerance \<open>\<ge> 0\<close>.
\<close>

theorem are_pixels_square_exact:
  assumes "xres ds = Inr xr" and "yres ds = Inr yr"
  shows "are_pixels_square ds = Inr (xr = yr) \<and>
         are_pixels_square ds = Inr (is_square_pixel_spec 0 xr yr) \<and>
         (0 \<le> tolerance \<and> are_pixels_square ds = Inr True
            \<longrightarrow> is_square_pixel_spec tolerance xr yr)"
  using assms by (auto simp add: are_pixels_square_def is_square_pixel_spec_def)

lemma example_bounds:
  "extent example_transform 1000 1000 =
     \<lparr>left = 500000, bottom = 3997000, right = 503000, top_edge = 4000000\<rparr>"
  by (simp add: extent_def example_transform_def)

lemma example_dataset_fields:
  "bounds example_dataset =
     \<lparr>left = 500000, bottom = 3997000, right = 503000, top_edge = 4000000\<rparr>"
  "transform example_dataset = example_transform"
  "width example_dataset = 1000" "height example_dataset = 1000"
  by (simp_all add: example_dataset_def example_bounds)

theorem are_pixels_square_exact_witness:
  "xres example_dataset = Inr 3 \<and> yres example_dataset = Inr 3 \<and>
   are_pixels_square example_dataset = Inr True \<and>
   is_square_pixel_spec (1 / 10 ^ 9) 3 3"
proof -
  have x: "xres example_dataset = Inr 3"
    by (simp add: xres_def example_dataset_def example_bounds)
  have y: "yres example_dataset = Inr 3"
    by (simp add: yres_def example_dataset_def example_bounds)
  from are_pixels_square_exact [OF x y, of "1 / 10 ^ 9"] x y show ?thesis by simp
qed

lemma extent_axis_aligned:
  assumes "coef_b t = 0" and "coef_d t = 0"
  shows "extent t w h =
     \<lparr>left = coef_c t, bottom = coef_f t + coef_e t * of_int h,
      right = coef_c t + coef_a t * of_int w, top_edge = coef_f t\<rparr>"
  using assms by (simp add: extent_def)

lemma resolution_spec_axis_aligned:
  assumes "coef_b t = 0" and "coef_d t = 0"
  shows "resolution_spec t = (\<bar>coef_a t\<bar>, \<bar>coef_e t\<bar>)"
  using assms by (simp add: resolution_spec_def)

text \<open>
  C9, as the claim states it, fails: on an axis-aligned raster with a = -3 and e = 5 the
  bounds are (100, 60, 70, 20), the cell computes the resolutions -3 and -5, and the
  coefficient-based resolution is (3, 5).
\<close>

theorem resolution_counterexample:
  "coef_b (transform flipped_dataset) = 0 \<and> coef_d (transform flipped_dataset) = 0 \<and>
   georeferenced flipped_dataset \<and>
   xres flipped_dataset = Inr (- 3) \<and> yres flipped_dataset = Inr (- 5) \<and>
   resolution_spec (transform flipped_dataset) = (3, 5)"
  by (simp add: georeferenced_def flipped_dataset_def extent_def xres_def yres_def
      resolution_spec_def)

text \<open>
  C9, amended: for every axis-aligned transform (b = d = 0) of a raster with positive
  width and height, the resolution the cell computes from the bounds is \<open>(a, -e)\<close>. The
  coefficient-based resolution of the spec is \<open>(\<bar>a\<bar>, \<bar>e\<bar>)\<close>, and the two are equal
  exactly when \<open>a \<ge> 0\<close> and \<open>e \<le> 0\<close>. For the example transform (a = 3, e = -3) the
  resolution is (3, 3).
\<close>

theorem resolution_axis_aligned:
  "(coef_b (transform ds) = 0 \<and> coef_d (transform ds) = 0 \<and>
    0 < width ds \<and> 0 < height ds \<and> georeferenced ds \<longrightarrow>
      xres ds = Inr (coef_a (transform ds)) \<and>
      yres ds = Inr (- coef_e (transform ds)) \<and>
      resolution_spec (transform ds) = (\<bar>coef_a (transform ds)\<bar>, \<bar>coef_e (transform ds)\<bar>) \<and>
      ((xres ds = Inr (fst (resolution_spec (transform ds))) \<and>
        yres ds = Inr (snd (resolution_spec (transform ds))))
         \<longleftrightarrow> (0 \<le> coef_a (transform ds) \<and> coef_e (transform ds) \<le> 0))) \<and>
   resolution_spec example_transform = (3, 3)"
proof (intro conjI impI)
  assume h: "coef_b (transform ds) = 0 \<and> coef_d (transform ds) = 0 \<and>
    0 < width ds \<and> 0 < height ds \<and> georeferenced ds"
  then have b: "coef_b (transform ds) = 0" and d: "coef_d (transform ds) = 0"
    and w: "0 < width ds" and ht: "0 < height ds" and g: "georeferenced ds"
    by simp_all
  have bd: "bounds ds = extent (transform ds) (width ds) (height ds)"
    using g by (simp add: georeferenced_def)
  show r: "resolution_spec (transform ds) = (\<bar>coef_a (transform ds)\<bar>, \<bar>coef_e (transform ds)\<bar>)"
    by (rule resolution_spec_axis_aligned [OF b d])
  show x: "xres ds = Inr (coef_a (transform ds))"
    using w by (simp add: xres_def bd extent_axis_aligned [OF b d])
  show y: "yres ds = Inr (- coef_e (transform ds))"
    using ht by (simp add: yres_def bd extent_axis_aligned [OF b d])
  show "(xres ds = Inr (fst (resolution_spec (transform ds))) \<and>
         yres ds = Inr (snd (resolution_spec (transform ds))))
          \<longleftrightarrow> (0 \<le> coef_a (transform ds) \<and> coef_e (transform ds) \<le> 0)"
    unfolding x y r by auto
next
  show "resolution_spec example_transform = (3, 3)"
    by (simp add: resolution_spec_def example_transform_def)
qed

theorem resolution_axis_aligned_witness:
  "georeferenced oblong_dataset \<and>
   xres oblong_dataset = Inr 3 \<and> yres oblong_dataset = Inr 2 \<and>
   resolution_spec (transform oblong_dataset) = (3, 2) \<and>
   resolution_spec example_transform = (3, 3)"
proof -
  have g: "georeferenced oblong_dataset"
    by (simp add: georeferenced_def oblong_dataset_def extent_def)
  from resolution_axis_aligned [of oblong_dataset] g show ?thesis
    by (simp add: oblong_dataset_def)
qed

section \<open>The corner cell\<close>

text \<open>
  C5, as the claim states it, fails for an axis-aligned transform with a = e = 0: every
  pixel maps to (c, f), so the printed corner equals the true one although height and
  width differ.
\<close>

theorem botright_counterexample:
  "coef_b (transform degenerate_dataset) = 0 \<and> coef_d (transform degenerate_dataset) = 0 \<and>
   height degenerate_dataset \<noteq> width degenerate_dataset \<and>
   botright degenerate_dataset =
     pixel_to_world (transform degenerate_dataset)
       (height degenerate_dataset - 1) (width degenerate_dataset - 1)"
  by (simp add: botright_def row_max_def col_max_def pixel_to_world_def affine_mul_def
      degenerate_dataset_def)

text \<open>
  C5, amended: the cell applies the transform to (row, col) where the transform maps
  (col, row). For an axis-aligned transform the printed bottom-right corner is
  \<open>(a * (height - 1) + c, e * (width - 1) + f)\<close>, the world coordinates of the
  transposed pixel (row = width - 1, col = height - 1). It equals the world coordinates
  of pixel (row = height - 1, col = width - 1) when height = width, and differs from them
  when height and width differ and a, e are not both zero. The top-left corner (0, 0) is
  not affected.
\<close>

theorem botright_transposed:
  assumes "coef_b (transform ds) = 0" and "coef_d (transform ds) = 0"
  shows "topleft ds = pixel_to_world (transform ds) 0 0 \<and>
         botright ds = pixel_to_world (transform ds) (width ds - 1) (height ds - 1) \<and>
         botright ds = (coef_a (transform ds) * of_int (height ds - 1) + coef_c (transform ds),
                        coef_e (transform ds) * of_int (width ds - 1) + coef_f (transform ds)) \<and>
         (height ds = width ds \<longrightarrow>
            botright ds = pixel_to_world (transform ds) (height ds - 1) (width ds - 1)) \<and>
         (height ds \<noteq> width ds \<and> (coef_a (transform ds) \<noteq> 0 \<or> coef_e (transform ds) \<noteq> 0) \<longrightarrow>
            botright ds \<noteq> pixel_to_world (transform ds) (height ds - 1) (width ds - 1))"
  using assms
  by (auto simp add: topleft_def botright_def row_min_def col_min_def row_max_def col_max_def
      pixel_to_world_def affine_mul_def)

theorem botright_transposed_witness:
  "coef_b (transform wide_dataset) = 0 \<and> coef_d (transform wide_dataset) = 0 \<and>
   height wide_dataset \<noteq> width wide_dataset \<and>
   topleft wide_dataset = (500000, 4000000) \<and>
   botright wide_dataset = (502997, 3995503) \<and>
   pixel_to_world (transform wide_dataset) (height wide_dataset - 1) (width wide_dataset - 1)
     = (504497, 3997003)"
proof -
  have b: "coef_b (transform wide_dataset) = 0" and d: "coef_d (transform wide_dataset) = 0"
    by (simp_all add: wide_dataset_def example_transform_def)
  have p: "pixel_to_world (transform wide_dataset) (height wide_dataset - 1)
      (width wide_dataset - 1) = (504497, 3997003)"
    by (simp add: pixel_to_world_def affine_mul_def wide_dataset_def example_transform_def)
  from botright_transposed [OF b d] b d p show ?thesis
    by (simp add: wide_dataset_def example_transform_def pixel_to_world_def affine_mul_def)
qed

section \<open>The pixel cell\<close>

lemma invert_axis_aligned:
  assumes "coef_b t = 0" and "coef_d t = 0" and "coef_a t \<noteq> 0" and "coef_e t \<noteq> 0"
  shows "invert t = Inr \<lparr>coef_a = 1 / coef_a t, coef_b = 0, coef_c = - coef_c t / coef_a t,
                          coef_d = 0, coef_e = 1 / coef_e t, coef_f = - coef_f t / coef_e t\<rparr>"
  using assms by (simp add: invert_eq determinant_def)

lemma world_to_pixel_axis_aligned:
  assumes "coef_b t = 0" and "coef_d t = 0" and "coef_a t \<noteq> 0" and "coef_e t \<noteq> 0"
  shows "world_to_pixel t x y policy =
           Inr (apply_policy policy ((y - coef_f t) / coef_e t),
                apply_policy policy ((x - coef_c t) / coef_a t))"
  by (simp add: world_to_pixel_eq invert_axis_aligned [OF assms] affine_mul_def
      diff_divide_distrib)

lemma subscript_of_index:
  "index ds (x_coord ds) (y_coord ds) Floor = Inr (r, c) \<Longrightarrow> subscript ds = Inr (c, r)"
  by (simp add: subscript_def)

lemma getitem_position:
  "getitem arr ij =
     (case position arr ij of Inl err \<Rightarrow> Inl err | Inr (r, c) \<Rightarrow> Inr (item arr r c))"
  by (simp add: getitem_def position_def split: prod.split sum.split)

text \<open>
  Two subscripts that are each other's transpose read the same place exactly when the
  indices are equal, or the array is square and the indices differ by its side: then one
  index is negative, the other is not, and both wrap to the same row and column.
\<close>

lemma wrap_eq:
  fixes n i j :: int
  assumes "- n \<le> i" and "i < n" and "- n \<le> j" and "j < n"
  shows "(if i < 0 then i + n else i) = (if j < 0 then j + n else j)
           \<longleftrightarrow> i = j \<or> \<bar>i - j\<bar> = n"
  using assms by (cases "i < 0"; cases "j < 0") auto

lemma axis_index_in_range:
  assumes "- n \<le> i" and "i < n"
  shows "axis_index n i = Inr (nat (if i < 0 then i + n else i))"
    and "0 \<le> (if i < 0 then i + n else i)"
  using assms by (auto simp add: axis_index_def)

lemma axis_index_Inr:
  assumes "axis_index n i = Inr k"
  shows "- n \<le> i" and "i < n"
  using assms by (auto simp add: axis_index_def split: if_splits)

lemma position_Inr:
  assumes "position arr (i, j) = Inr p"
  shows "- nrows arr \<le> i" and "i < nrows arr" and "- ncols arr \<le> j" and "j < ncols arr"
proof -
  from assms obtain k where k: "axis_index (nrows arr) i = Inr k"
    by (auto simp add: position_def split: sum.splits)
  with assms obtain l where l: "axis_index (ncols arr) j = Inr l"
    by (auto simp add: position_def split: sum.splits)
  from axis_index_Inr [OF k] show "- nrows arr \<le> i" and "i < nrows arr" .
  from axis_index_Inr [OF l] show "- ncols arr \<le> j" and "j < ncols arr" .
qed

lemma position_in_range:
  assumes "- nrows arr \<le> i" and "i < nrows arr" and "- ncols arr \<le> j" and "j < ncols arr"
  shows "position arr (i, j) =
           Inr (nat (if i < 0 then i + nrows arr else i),
                nat (if j < 0 then j + ncols arr else j))"
  by (simp add: position_def axis_index_in_range(1) [OF assms(1,2)]
      axis_index_in_range(1) [OF assms(3,4)])

lemma position_transposed:
  assumes "position arr (c, r) = Inr p"
  shows "position arr (r, c) = Inr p \<longleftrightarrow>
           r = c \<or> (nrows arr = ncols arr \<and> \<bar>r - c\<bar> = nrows arr)"
proof -
  note rng = position_Inr [OF assms]
  have p: "p = (nat (if c < 0 then c + nrows arr else c),
      nat (if r < 0 then r + ncols arr else r))"
    using assms by (simp add: position_in_range [OF rng])
  show ?thesis
  proof (cases "- nrows arr \<le> r \<and> r < nrows arr \<and> - ncols arr \<le> c \<and> c < ncols arr")
    case True
    then have t: "- nrows arr \<le> r" "r < nrows arr" "- ncols arr \<le> c" "c < ncols arr"
      by simp_all
    have "position arr (r, c) = Inr p \<longleftrightarrow>
        nat (if r < 0 then r + nrows arr else r) = nat (if c < 0 then c + nrows arr else c) \<and>
        nat (if c < 0 then c + ncols arr else c) = nat (if r < 0 then r + ncols arr else r)"
      by (simp add: position_in_range [OF t] p)
    also have "\<dots> \<longleftrightarrow>
        (if r < 0 then r + nrows arr else r) = (if c < 0 then c + nrows arr else c) \<and>
        (if c < 0 then c + ncols arr else c) = (if r < 0 then r + ncols arr else r)"
      using axis_index_in_range(2) [OF t(1,2)] axis_index_in_range(2) [OF rng(1,2)]
        axis_index_in_range(2) [OF t(3,4)] axis_index_in_range(2) [OF rng(3,4)]
      by (simp only: eq_nat_nat_iff)
    also have "\<dots> \<longleftrightarrow> (r = c \<or> \<bar>r - c\<bar> = nrows arr) \<and> (c = r \<or> \<bar>c - r\<bar> = ncols arr)"
      by (simp only: wrap_eq [OF t(1,2) rng(1,2)] wrap_eq [OF t(3,4) rng(3,4)])
    also have "\<dots> \<longleftrightarrow> r = c \<or> (nrows arr = ncols arr \<and> \<bar>r - c\<bar> = nrows arr)"
      by (auto simp add: abs_minus_commute)
    finally show ?thesis .
  next
    case False
    have "position arr (r, c) \<noteq> Inr p"
    proof
      assume "position arr (r, c) = Inr p"
      from position_Inr [OF this] False show False by simp
    qed
    moreover from False rng have "r \<noteq> c" by auto
    moreover from False rng have "\<not> (nrows arr = ncols arr \<and> \<bar>r - c\<bar> = nrows arr)" by auto
    ultimately show ?thesis by simp
  qed
qed

text \<open>
  C10, as the claim states it, fails: on a raster of 4 by 4 pixels with a = e = -1000 the
  index conversion returns the unequal indices (row -2, col 2), and the transposed
  subscript (2, -2) reads the same place (2, 2) as the intended subscript (-2, 2), hence
  the same pixel.
\<close>

lemma square_index:
  "index square_dataset (x_coord square_dataset) (y_coord square_dataset) Floor
     = Inr (- 2, 2)"
  by (simp add: index_def x_coord_def y_coord_def square_dataset_def
      world_to_pixel_axis_aligned)

theorem subscript_counterexample:
  "index square_dataset (x_coord square_dataset) (y_coord square_dataset) Floor
     = Inr (- 2, 2) \<and>
   subscript square_dataset = Inr (2, - 2) \<and>
   position square_band (2, - 2) = Inr (2, 2) \<and>
   position square_band (- 2, 2) = Inr (2, 2) \<and>
   pixel_value square_dataset square_band = Inr 10 \<and>
   getitem square_band (- 2, 2) = Inr 10"
  by (simp add: square_index subscript_of_index [OF square_index] pixel_value_def
      getitem_def position_def axis_index_def square_band_def)

text \<open>
  C10, amended: the index conversion returns (row, col); the cell binds \<open>col\<close> to the
  first component and \<open>row\<close> to the second, so the subscript \<open>[row, col]\<close> is the returned
  pair transposed and the pixel read is the item at the place of the transposed
  subscript. It is the intended pixel when the two indices are equal. When they differ and the read succeeds,
  the place read is the intended place only if the band is square and the indices differ
  by exactly its side (one negative index and one non-negative index that wrap to the
  same place).
\<close>

theorem subscript_transposed:
  assumes "index ds (x_coord ds) (y_coord ds) Floor = Inr (r, c)"
  shows "subscript ds = Inr (c, r) \<and>
         pixel_value ds band = getitem band (c, r) \<and>
         (subscript ds = Inr (r, c) \<longleftrightarrow> r = c) \<and>
         (r = c \<longrightarrow> pixel_value ds band = getitem band (r, c)) \<and>
         (\<forall>p. position band (c, r) = Inr p \<longrightarrow>
            pixel_value ds band = Inr (item band (fst p) (snd p)) \<and>
            (position band (r, c) = Inr p \<longleftrightarrow>
               r = c \<or> (nrows band = ncols band \<and> \<bar>r - c\<bar> = nrows band)))"
proof -
  have s: "subscript ds = Inr (c, r)"
    by (rule subscript_of_index [OF assms])
  then have v: "pixel_value ds band = getitem band (c, r)"
    by (simp add: pixel_value_def)
  have "pixel_value ds band = Inr (item band (fst p) (snd p))"
    if "position band (c, r) = Inr p" for p
    using that by (simp add: v getitem_position split: prod.split)
  with s v position_transposed [of band c r] show ?thesis
    by auto
qed

lemma oblong_index:
  "index oblong_dataset (x_coord oblong_dataset) (y_coord oblong_dataset) Floor
     = Inr (- 1000, - 667)"
  by (simp add: index_def x_coord_def y_coord_def oblong_dataset_def
      world_to_pixel_axis_aligned)

theorem subscript_transposed_witness:
  "index oblong_dataset (x_coord oblong_dataset) (y_coord oblong_dataset) Floor
     = Inr (- 1000, - 667) \<and>
   subscript oblong_dataset = Inr (- 667, - 1000) \<and>
   pixel_value oblong_dataset example_band = Inr 333000 \<and>
   getitem example_band (- 1000, - 667) = Inr 333 \<and>
   position example_band (- 667, - 1000) = Inr (333, 0) \<and>
   position example_band (- 1000, - 667) \<noteq> Inr (333, 0)"
proof -
  have g: "getitem example_band (- 667, - 1000) = Inr 333000"
    "getitem example_band (- 1000, - 667) = Inr 333"
    by (simp_all add: getitem_def axis_index_def example_band_def)
  have p: "position example_band (- 667, - 1000) = Inr (333, 0)"
    by (simp add: position_def axis_index_def example_band_def)
  have s: "nrows example_band = 1000"
    by (simp add: example_band_def)
  from subscript_transposed [OF oblong_index, of example_band] oblong_index g p s
  show ?thesis by simp
qed

lemma north_up_bounds:
  assumes "coef_b (transform ds) = 0" and "coef_d (transform ds) = 0"
    and "georeferenced ds"
  shows "left (bounds ds) = coef_c (transform ds)"
    and "top_edge (bounds ds) = coef_f (transform ds)"
  using assms(3) by (simp_all add: georeferenced_def extent_axis_aligned [OF assms(1,2)])

lemma getitem_negative:
  assumes "i < 0" and "j < 0"
  shows "getitem arr (i, j) =
           (if - nrows arr \<le> i \<and> - ncols arr \<le> j
            then Inr (item arr (nat (i + nrows arr)) (nat (j + ncols arr)))
            else Inl IndexError)"
  using assms by (auto simp add: getitem_def axis_index_def)

lemma small_bounds:
  "extent example_transform 100 100 =
     \<lparr>left = 500000, bottom = 3999700, right = 500300, top_edge = 4000000\<rparr>"
  by (simp add: extent_def example_transform_def)

lemma small_dataset_fields:
  "bounds small_dataset =
     \<lparr>left = 500000, bottom = 3999700, right = 500300, top_edge = 4000000\<rparr>"
  "transform small_dataset = example_transform"
  "width small_dataset = 100" "height small_dataset = 100"
  by (simp_all add: small_dataset_def small_bounds)

lemma example_transform_index:
  "world_to_pixel example_transform 498000 4002000 Floor = Inr (- 667, - 667)"
  by (simp add: world_to_pixel_axis_aligned example_transform_def)

lemma example_index:
  "index example_dataset (x_coord example_dataset) (y_coord example_dataset) Floor
     = Inr (- 667, - 667)"
  by (simp add: index_def x_coord_def y_coord_def example_dataset_fields
      example_transform_index)

lemma small_index:
  "index small_dataset (x_coord small_dataset) (y_coord small_dataset) Floor
     = Inr (- 667, - 667)"
  by (simp add: index_def x_coord_def y_coord_def small_dataset_fields
      example_transform_index)

text \<open>
  On a raster that is not north-up the indices need not be negative: with a < 0 and
  e > 0 the target point maps to a positive column and a positive row.
\<close>

lemma flipped_index:
  "index flipped_dataset (x_coord flipped_dataset) (y_coord flipped_dataset) Floor
     = Inr (400, 666)"
  by (simp add: index_def x_coord_def y_coord_def flipped_dataset_def
      world_to_pixel_axis_aligned)

text \<open>
  C6, as the claim states it, fails: on a raster of 100 by 100 pixels of 3 metres (both
  resolutions positive) the target point lies west and north of the bounds and both
  indices are -667, but the array access does not return a pixel: -667 is below -100 and
  the access raises \<open>IndexError\<close>.
\<close>

theorem pixel_cell_counterexample:
  "xres small_dataset = Inr 3 \<and> yres small_dataset = Inr 3 \<and>
   x_coord small_dataset < left (bounds small_dataset) \<and>
   top_edge (bounds small_dataset) < y_coord small_dataset \<and>
   index small_dataset (x_coord small_dataset) (y_coord small_dataset) Floor
     = Inr (- 667, - 667) \<and>
   pixel_value small_dataset small_band = Inl IndexError"
proof -
  have "pixel_value small_dataset small_band = Inl IndexError"
    by (simp add: pixel_value_def subscript_of_index [OF small_index] getitem_def
        axis_index_def small_band_def)
  moreover have "xres small_dataset = Inr 3" "yres small_dataset = Inr 3"
    by (simp_all add: xres_def yres_def small_dataset_fields)
  moreover have "x_coord small_dataset < left (bounds small_dataset)"
    "top_edge (bounds small_dataset) < y_coord small_dataset"
    by (simp_all add: x_coord_def y_coord_def)
  ultimately show ?thesis using small_index by simp
qed

text \<open>
  C6, amended: the target point \<open>(bounds.left - 2000, bounds.top + 2000)\<close> lies strictly
  west and north of the bounds. For a north-up axis-aligned transform (b = d = 0, a > 0,
  e < 0) of a raster whose bounds are its extent, the floor-rounded indices are
  \<open>row = \<lfloor>2000 / e\<rfloor>\<close> and \<open>col = \<lfloor>-2000 / a\<rfloor>\<close>, both negative. The array access then
  counts from the far edges and returns the item at \<open>(col + height, row + width)\<close> when
  \<open>-height \<le> col\<close> and \<open>-width \<le> row\<close>; otherwise it raises \<open>IndexError\<close>.
\<close>

theorem pixel_cell_negative_indices:
  assumes "coef_b (transform ds) = 0" and "coef_d (transform ds) = 0"
    and "0 < coef_a (transform ds)" and "coef_e (transform ds) < 0"
    and "0 \<le> width ds" and "0 \<le> height ds" and "georeferenced ds"
    and "nrows band = height ds" and "ncols band = width ds"
  shows "x_coord ds < left (bounds ds) \<and> top_edge (bounds ds) < y_coord ds \<and>
         (\<exists>row col. index ds (x_coord ds) (y_coord ds) Floor = Inr (row, col) \<and>
            row = \<lfloor>2000 / coef_e (transform ds)\<rfloor> \<and> col = \<lfloor>- 2000 / coef_a (transform ds)\<rfloor> \<and>
            row < 0 \<and> col < 0 \<and>
            pixel_value ds band =
              (if - height ds \<le> col \<and> - width ds \<le> row
               then Inr (item band (nat (col + height ds)) (nat (row + width ds)))
               else Inl IndexError))"
proof -
  let ?t = "transform ds"
  let ?row = "\<lfloor>2000 / coef_e ?t\<rfloor>" and ?col = "\<lfloor>- 2000 / coef_a ?t\<rfloor>"
  have l: "left (bounds ds) = coef_c ?t" and tp: "top_edge (bounds ds) = coef_f ?t"
    using north_up_bounds [OF assms(1,2,7)] by simp_all
  have a: "coef_a ?t \<noteq> 0" and e: "coef_e ?t \<noteq> 0"
    using assms(3,4) by simp_all
  have i: "index ds (x_coord ds) (y_coord ds) Floor = Inr (?row, ?col)"
    by (simp add: index_def world_to_pixel_axis_aligned [OF assms(1,2) a e]
        x_coord_def y_coord_def l tp)
  have "2000 / coef_e ?t < 0"
    using assms(4) by (simp add: divide_pos_neg)
  then have r: "?row < 0"
    by (simp add: floor_less_iff)
  have "- 2000 / coef_a ?t < 0"
    using assms(3) by (simp add: divide_neg_pos)
  then have c: "?col < 0"
    by (simp add: floor_less_iff)
  have v: "pixel_value ds band =
      (if - height ds \<le> ?col \<and> - width ds \<le> ?row
       then Inr (item band (nat (?col + height ds)) (nat (?row + width ds)))
       else Inl IndexError)"
    using getitem_negative [OF c r, of band]
    by (simp add: pixel_value_def subscript_of_index [OF i] assms(8,9))
  have w: "x_coord ds < left (bounds ds)" and n: "top_edge (bounds ds) < y_coord ds"
    by (simp_all add: x_coord_def y_coord_def)
  from i r c v w n show ?thesis by blast
qed

theorem pixel_cell_negative_indices_witness:
  "georeferenced example_dataset \<and>
   nrows example_band = height example_dataset \<and> ncols example_band = width example_dataset \<and>
   index example_dataset (x_coord example_dataset) (y_coord example_dataset) Floor
     = Inr (- 667, - 667) \<and>
   pixel_value example_dataset example_band = Inr 333333"
proof -
  have g: "georeferenced example_dataset"
    by (simp add: georeferenced_def example_dataset_def)
  have s: "nrows example_band = height example_dataset"
    "ncols example_band = width example_dataset"
    by (simp_all add: example_band_def example_dataset_fields)
  have t: "coef_b (transform example_dataset) = 0" "coef_d (transform example_dataset) = 0"
    "0 < coef_a (transform example_dataset)" "coef_e (transform example_dataset) < 0"
    "0 \<le> width example_dataset" "0 \<le> height example_dataset"
    by (simp_all add: example_dataset_fields example_transform_def)
  from pixel_cell_negative_indices [OF t g s]
  obtain row col where
    i: "index example_dataset (x_coord example_dataset) (y_coord example_dataset) Floor
          = Inr (row, col)"
    and v: "pixel_value example_dataset example_band =
          (if - height example_dataset \<le> col \<and> - width example_dataset \<le> row
           then Inr (item example_band (nat (col + height example_dataset))
                      (nat (row + width example_dataset)))
           else Inl IndexError)"
    by blast
  from i example_index have rc: "row = - 667" "col = - 667"
    by simp_all
  have "pixel_value example_dataset example_band = Inr 333333"
    unfolding v rc by (simp add: example_dataset_fields example_band_def)
  with g s example_index show ?thesis by simp
qed

end
